theory Spec2Isabelle
  imports Complex_Main "HOL-Library.Word"
begin

section \<open>Image utilities of \<^verbatim>\<open>src/modules/utils.py\<close>\<close>

text \<open>
  The module wraps an image library (\<^verbatim>\<open>cv2\<close>), an array library (\<^verbatim>\<open>numpy\<close>) and a
  landmark detector (\<^verbatim>\<open>mediapipe\<close>). Each function of the module is embedded as a HOL
  function. What an external call computes from files, pixels or a trained model is not
  part of the module: it enters a definition as a parameter (\<open>imread\<close>, \<open>imwrite\<close>,
  \<open>supported\<close>, \<open>interp\<close>, \<open>process\<close>, \<open>render\<close>, \<open>cvtColor\<close>, \<open>VideoCapture\<close>). What
  a library call refuses by its own contract is written into the model of the call, so
  that an exception of the library is a result of the function that calls it. What the
  module does with the results, the order of its checks and the exceptions it raises
  are written out.
\<close>

subsection \<open>Errors, sources and the record of file accesses\<close>

text \<open>
  The exceptions of \<^verbatim>\<open>custom_exceptions\<close> that the module raises, the two built-in
  exceptions it raises, and \<open>Cv2Error\<close> for an exception raised inside a call of the
  image library.
\<close>

datatype error =
    PathToImageIsIncorrectError
  | ImageNotExistsError
  | PathToVideoIsIncorrectError
  | CameraIndexIsIncorrect
  | TypeError
  | ValueError
  | Cv2Error

text \<open>
  The argument \<^verbatim>\<open>source\<close> of \<^verbatim>\<open>open_img\<close> as the \<^verbatim>\<open>isinstance\<close> chain tells it
  apart: a string, an array (of any shape and content, hence the type variable),
  \<^verbatim>\<open>None\<close>, or any other Python object.
\<close>

datatype 'a source = Str string | NdArray 'a | PyNone | PyOther

text \<open>
  The accesses to the file system, in the order they happen: \<open>ImRead p\<close> for a call
  \<^verbatim>\<open>cv2.imread(p)\<close>, and \<open>ImWrite p img\<close> for a file that \<^verbatim>\<open>cv2.imwrite(p, img)\<close> has
  written at the path \<open>p\<close> with the content \<open>img\<close>. Every function that can reach such
  a call takes the record so far and returns it extended.
\<close>

datatype 'a io_call = ImRead string | ImWrite string 'a

text \<open>
  \<^verbatim>\<open>open_img\<close> (lines 14 to 35). \<open>imread p\<close> is what \<^verbatim>\<open>cv2.imread(p)\<close> returns:
  \<open>None\<close> when the file is missing or cannot be decoded, the decoded array otherwise.
\<close>

fun open_img ::
  "(string \<Rightarrow> 'a option) \<Rightarrow> 'a source \<Rightarrow> 'a io_call list \<Rightarrow> (error + 'a) \<times> 'a io_call list"
where
  "open_img imread (Str p) tr =
     (case imread p of
        None \<Rightarrow> (Inl PathToImageIsIncorrectError, tr @ [ImRead p])
      | Some img \<Rightarrow> (Inr img, tr @ [ImRead p]))"
| "open_img imread (NdArray a) tr = (Inr a, tr)"
| "open_img imread PyNone tr = (Inl ImageNotExistsError, tr)"
| "open_img imread PyOther tr = (Inl TypeError, tr)"

subsection \<open>Images, rescaling and mirroring\<close>

text \<open>
  An image is an array of \<^verbatim>\<open>shape[0]\<close> rows and \<^verbatim>\<open>shape[1]\<close> columns; a pixel is a
  number or a list of channels, which no function of the module looks into (hence the
  type variable). The two leading dimensions are fields of their own, as the array's
  \<^verbatim>\<open>shape\<close> is: an array with no row still has a width.
\<close>

record 'p image =
  height :: nat
  width :: nat
  pixels :: "'p list list"

text \<open>
  \<^verbatim>\<open>int(n / 100)\<close> for an integer \<open>n\<close>: the quotient, truncated towards zero. Python
  divides in floating point; the quotient it truncates is the exact one for every
  \<open>n\<close> below \<open>2^53\<close>, far above the sizes an image library accepts.
\<close>

definition int_percent :: "int \<Rightarrow> int" where
  "int_percent n = (if 0 \<le> n then n div 100 else - ((- n) div 100))"

definition INT_MAX :: int where
  "INT_MAX = 2147483647"

text \<open>
  \<^verbatim>\<open>cv2.resize(src, (w, h), interpolation=cv2.INTER_AREA)\<close>, called without scale
  factors. By the library's contract the target size must then be non-zero: it raises
  on an empty source and on a target size with a component that is not positive, and
  its binding raises on one that does not fit a C \<^verbatim>\<open>int\<close>. Beyond the sizes, the
  library resizes only arrays of the element types it has a kernel for (8-bit colour
  is one; several integer types and booleans are not), and only to a target it can
  allocate: whether it does for a given array and target is the parameter
  \<open>supported src w h\<close>, and the call raises when it does not. Otherwise the call
  returns an image of \<open>h\<close> rows and \<open>w\<close> columns, every pixel of it computed from
  the source. The computation of one pixel is the parameter \<open>interp src w h i j\<close>
  (row \<open>i\<close>, column \<open>j\<close>).
\<close>

definition cv2_resize ::
  "('p image \<Rightarrow> nat \<Rightarrow> nat \<Rightarrow> bool) \<Rightarrow> ('p image \<Rightarrow> nat \<Rightarrow> nat \<Rightarrow> nat \<Rightarrow> nat \<Rightarrow> 'p) \<Rightarrow>
   'p image \<Rightarrow> int \<times> int \<Rightarrow> error + 'p image"
where
  "cv2_resize supported interp src dsize =
     (case dsize of (w, h) \<Rightarrow>
        if height src = 0 \<or> width src = 0 then Inl Cv2Error
        else if w \<le> 0 \<or> h \<le> 0 then Inl Cv2Error
        else if INT_MAX < w \<or> INT_MAX < h then Inl Cv2Error
        else if \<not> supported src (nat w) (nat h) then Inl Cv2Error
        else Inr \<lparr>height = nat h, width = nat w,
                  pixels = map (\<lambda>i. map (\<lambda>j. interp src (nat w) (nat h) i j) [0..<nat w])
                             [0..<nat h]\<rparr>)"

text \<open>\<^verbatim>\<open>rescale_img\<close> (lines 52 to 71).\<close>

definition rescale_img ::
  "('p image \<Rightarrow> nat \<Rightarrow> nat \<Rightarrow> bool) \<Rightarrow> (string \<Rightarrow> 'p image option) \<Rightarrow>
   ('p image \<Rightarrow> nat \<Rightarrow> nat \<Rightarrow> nat \<Rightarrow> nat \<Rightarrow> 'p) \<Rightarrow>
   'p image source \<Rightarrow> int \<Rightarrow> 'p image io_call list \<Rightarrow>
   (error + 'p image) \<times> 'p image io_call list"
where
  "rescale_img supported imread interp source rescale_factor tr =
     (if rescale_factor \<le> 0 then (Inl ValueError, tr)
      else
        case open_img imread source tr of
          (Inl e, tr') \<Rightarrow> (Inl e, tr')
        | (Inr img, tr') \<Rightarrow>
            let w = int_percent (int (width img) * rescale_factor);
                h = int_percent (int (height img) * rescale_factor)
            in (cv2_resize supported interp img (w, h), tr'))"

text \<open>\<^verbatim>\<open>np.flip(img, axis=1)\<close>: every row in reverse order, the shape as it was.\<close>

definition flip_axis1 :: "'p image \<Rightarrow> 'p image" where
  "flip_axis1 img = img\<lparr>pixels := map rev (pixels img)\<rparr>"

text \<open>
  The three ways a call \<^verbatim>\<open>cv2.imwrite(path, img)\<close> ends: it raises; it returns
  \<^verbatim>\<open>False\<close>, having written nothing; it returns \<^verbatim>\<open>True\<close>, having written the file.
\<close>

datatype imwrite_result = ImwriteRaises | ImwriteFalse | ImwriteTrue

text \<open>
  \<^verbatim>\<open>cv2.imwrite(path, img)\<close>. The library chooses the encoder by the extension of the
  file name: for a path with no extension there is none and the call raises. For any
  other path the end of the call depends on the codecs of the build, on the directory
  and on the array; it is the parameter \<open>imwrite path img\<close>.
\<close>

definition cv2_imwrite ::
  "(string \<Rightarrow> 'p image \<Rightarrow> imwrite_result) \<Rightarrow> string \<Rightarrow> 'p image \<Rightarrow> imwrite_result"
where
  "cv2_imwrite imwrite path img =
     (if CHR ''.'' \<notin> set path then ImwriteRaises else imwrite path img)"

text \<open>
  \<^verbatim>\<open>img_mirror\<close> (lines 236 to 253). \<^verbatim>\<open>destination_path\<close> defaults to \<^verbatim>\<open>None\<close>;
  the test \<^verbatim>\<open>if destination_path:\<close> holds for a string that is not empty. The source
  neither catches an exception of \<^verbatim>\<open>cv2.imwrite\<close> nor looks at the value it returns.
\<close>

definition img_mirror ::
  "(string \<Rightarrow> 'p image \<Rightarrow> imwrite_result) \<Rightarrow> (string \<Rightarrow> 'p image option) \<Rightarrow>
   'p image source \<Rightarrow> string option \<Rightarrow>
   'p image io_call list \<Rightarrow> (error + 'p image) \<times> 'p image io_call list"
where
  "img_mirror imwrite imread source destination_path tr =
     (case open_img imread source tr of
        (Inl e, tr') \<Rightarrow> (Inl e, tr')
      | (Inr img, tr') \<Rightarrow>
          let img_mirrored = flip_axis1 img
          in (case destination_path of
                None \<Rightarrow> (Inr img_mirrored, tr')
              | Some d \<Rightarrow>
                  if d \<noteq> [] then
                    (case cv2_imwrite imwrite d img_mirrored of
                       ImwriteRaises \<Rightarrow> (Inl Cv2Error, tr')
                     | ImwriteFalse \<Rightarrow> (Inr img_mirrored, tr')
                     | ImwriteTrue \<Rightarrow> (Inr img_mirrored, tr' @ [ImWrite d img_mirrored]))
                  else (Inr img_mirrored, tr')))"

subsection \<open>Landmark detection on one frame\<close>

text \<open>
  What \<^verbatim>\<open>holistic.process(img)\<close> returns, as far as the module reads it: three
  landmark lists, each of them \<^verbatim>\<open>None\<close> when the detector found nothing of that kind.
\<close>

record 'lm results =
  pose_landmarks :: "'lm option"
  left_hand_landmarks :: "'lm option"
  right_hand_landmarks :: "'lm option"

datatype connections = POSE_CONNECTIONS | HAND_CONNECTIONS

record drawing_spec =
  color :: "nat \<times> nat \<times> nat"
  thickness :: real
  circle_radius :: real

definition DrawingSpec :: "nat \<times> nat \<times> nat \<Rightarrow> real \<Rightarrow> real \<Rightarrow> drawing_spec" where
  "DrawingSpec c t r = \<lparr>color = c, thickness = t, circle_radius = r\<rparr>"

text \<open>
  The keyword arguments that \<^verbatim>\<open>detect_and_draw_landmarks\<close> and the two
  \<^verbatim>\<open>drawing_points\<close> functions share, under the names of the source.
\<close>

record landmark_args =
  min_detection_confidence :: real
  min_tracking_confidence :: real
  points_color :: "nat \<times> nat \<times> nat"
  points_thickness :: real
  points_radius :: real
  connect_color :: "nat \<times> nat \<times> nat"
  connect_thickness :: real
  connect_radius :: real

definition default_args :: landmark_args where
  "default_args =
     \<lparr>min_detection_confidence = 1 / 2, min_tracking_confidence = 1 / 2,
      points_color = (0, 0, 255), points_thickness = 1, points_radius = 1,
      connect_color = (50, 255, 0), connect_thickness = 1, connect_radius = 1\<rparr>"

text \<open>
  \<^verbatim>\<open>draw.draw_landmarks(img, landmark_list, connections, spec, spec)\<close>: the detector
  library's drawing routine returns at once when the landmark list is \<^verbatim>\<open>None\<close> and
  draws on the image otherwise. The drawing itself is the parameter \<open>render\<close>. The
  source draws in place and returns the same array; the model returns the drawn frame.
\<close>

definition draw_landmarks ::
  "('lm \<Rightarrow> connections \<Rightarrow> drawing_spec \<Rightarrow> drawing_spec \<Rightarrow> 'f \<Rightarrow> 'f) \<Rightarrow>
   'f \<Rightarrow> 'lm option \<Rightarrow> connections \<Rightarrow> drawing_spec \<Rightarrow> drawing_spec \<Rightarrow> 'f"
where
  "draw_landmarks render img landmark_list conns lspec cspec =
     (case landmark_list of
        None \<Rightarrow> img
      | Some l \<Rightarrow> render l conns lspec cspec img)"

text \<open>
  \<^verbatim>\<open>detect_and_draw_landmarks\<close> (lines 173 to 233). \<open>process d t img\<close> is the result of
  a fresh detector, built with the two confidences, on the frame. The three drawing
  calls all stand under the one test \<^verbatim>\<open>if results.pose_landmarks:\<close>.
\<close>

definition detect_and_draw_landmarks ::
  "(real \<Rightarrow> real \<Rightarrow> 'f \<Rightarrow> 'lm results) \<Rightarrow>
   ('lm \<Rightarrow> connections \<Rightarrow> drawing_spec \<Rightarrow> drawing_spec \<Rightarrow> 'f \<Rightarrow> 'f) \<Rightarrow>
   'f \<Rightarrow> landmark_args \<Rightarrow> 'f"
where
  "detect_and_draw_landmarks process render img args =
     (let results = process (min_detection_confidence args) (min_tracking_confidence args) img;
          pspec = DrawingSpec (points_color args) (points_thickness args) (points_radius args);
          cspec = DrawingSpec (connect_color args) (connect_thickness args) (connect_radius args)
      in if pose_landmarks results \<noteq> None then
           let img1 = draw_landmarks render img (pose_landmarks results)
                        POSE_CONNECTIONS pspec cspec;
               img2 = draw_landmarks render img1 (left_hand_landmarks results)
                        HAND_CONNECTIONS pspec cspec;
               img3 = draw_landmarks render img2 (right_hand_landmarks results)
                        HAND_CONNECTIONS pspec cspec
           in img3
         else img)"

text \<open>
  The detection results that are present, in the order pose, left hand, right hand,
  each with the connections its overlay is drawn with. This is the reading of
  ``an overlay for each of the detection results that is present'' that
  \<^verbatim>\<open>detect_and_draw_landmarks\<close> is compared with; it is not taken from the source.
\<close>

definition present_results :: "'lm results \<Rightarrow> ('lm \<times> connections) list" where
  "present_results r =
     (case pose_landmarks r of None \<Rightarrow> [] | Some p \<Rightarrow> [(p, POSE_CONNECTIONS)])
     @ (case left_hand_landmarks r of None \<Rightarrow> [] | Some l \<Rightarrow> [(l, HAND_CONNECTIONS)])
     @ (case right_hand_landmarks r of None \<Rightarrow> [] | Some l \<Rightarrow> [(l, HAND_CONNECTIONS)])"

subsection \<open>The frames of a video or camera\<close>

datatype video_source = VideoPath string | CameraIndex int

text \<open>
  A capture handle: whether it is open, how many reads it has served, and what each
  read gives (\<open>frames cap n\<close> is the frame of read number \<open>n\<close>, \<open>None\<close> when that
  read fails). A camera may deliver frames for ever, so the frames are a function and
  not a list. \<^verbatim>\<open>cap.read()\<close> serves the next read; only \<^verbatim>\<open>cap.release()\<close>, which the
  module never calls, would clear \<open>is_opened\<close>.
\<close>

record 'f capture =
  is_opened :: bool
  position :: nat
  frames :: "nat \<Rightarrow> 'f option"

definition cap_read :: "'f capture \<Rightarrow> 'f option \<times> 'f capture" where
  "cap_read cap = (frames cap (position cap), cap\<lparr>position := Suc (position cap)\<rparr>)"

text \<open>
  The \<^verbatim>\<open>while\<close> loop of \<^verbatim>\<open>drawing_points_video\<close> (lines 106 to 116), with the body's
  work on one frame as \<open>step\<close>. The source drops the value it assigns to \<^verbatim>\<open>img\<close> in
  each round (the display calls are commented out); the model collects these values in
  \<open>outs\<close> and returns them with the capture as the loop leaves it. The loop need not
  end: the result is \<open>None\<close> when it does not.
\<close>

partial_function (option) frame_loop ::
  "('f \<Rightarrow> 'f) \<Rightarrow> 'f capture \<Rightarrow> 'f list \<Rightarrow> ('f capture \<times> 'f list) option"
where
  "frame_loop step cap outs =
     (if is_opened cap then
        (case cap_read cap of
           (None, cap') \<Rightarrow> Some (cap', outs)
         | (Some img, cap') \<Rightarrow> frame_loop step cap' (outs @ [step img]))
      else Some (cap, outs))"

text \<open>
  \<^verbatim>\<open>drawing_points_video\<close> (lines 74 to 123). \<open>VideoCapture source\<close> is the handle
  that \<^verbatim>\<open>cv2.VideoCapture(source)\<close> builds, \<open>cvtColor\<close> the conversion from BGR to RGB.
  The arguments \<^verbatim>\<open>rescale\<close> and \<^verbatim>\<open>window_name\<close> are not used by the source and are
  left out.
\<close>

definition drawing_points_video ::
  "(video_source \<Rightarrow> 'f capture) \<Rightarrow> ('f \<Rightarrow> 'f) \<Rightarrow>
   (real \<Rightarrow> real \<Rightarrow> 'f \<Rightarrow> 'lm results) \<Rightarrow>
   ('lm \<Rightarrow> connections \<Rightarrow> drawing_spec \<Rightarrow> drawing_spec \<Rightarrow> 'f \<Rightarrow> 'f) \<Rightarrow>
   video_source \<Rightarrow> landmark_args \<Rightarrow> (error + 'f capture \<times> 'f list) option"
where
  "drawing_points_video VideoCapture cvtColor process render source args =
     (let cap = VideoCapture source
      in if \<not> is_opened cap then
           (case source of
              VideoPath p \<Rightarrow> Some (Inl PathToVideoIsIncorrectError)
            | CameraIndex i \<Rightarrow> Some (Inl CameraIndexIsIncorrect))
         else
           map_option Inr
             (frame_loop
                (\<lambda>img. detect_and_draw_landmarks process render (cvtColor img) args)
                cap []))"

section \<open>Properties\<close>

subsection \<open>Opening an image\<close>

text \<open>
  C2. For every string path, \<^verbatim>\<open>open_img\<close> raises \<open>PathToImageIsIncorrectError\<close> when
  decoding the file gives the null result and returns the decoded array otherwise; the
  error is raised exactly when the decode result is null.
\<close>

theorem open_img_path:
  "fst (open_img imread (Str p) tr) =
     (case imread p of None \<Rightarrow> Inl PathToImageIsIncorrectError | Some img \<Rightarrow> Inr img)
   \<and> (fst (open_img imread (Str p) tr) = Inl PathToImageIsIncorrectError \<longleftrightarrow> imread p = None)
   \<and> (\<forall>e. fst (open_img imread (Str p) tr) = Inl e \<longleftrightarrow>
          imread p = None \<and> e = PathToImageIsIncorrectError)"
  by (cases "imread p") auto

text \<open>
  C6. \<^verbatim>\<open>open_img\<close> called with \<^verbatim>\<open>None\<close> raises \<open>ImageNotExistsError\<close>, and reads no
  file.
\<close>

theorem open_img_none:
  "open_img imread PyNone tr = (Inl ImageNotExistsError, tr)"
  by simp

text \<open>
  C10. An array passed as source is returned as it is, whatever its shape and content,
  and no file is read. Among the sources that are not strings, exactly \<^verbatim>\<open>None\<close>
  (with \<open>ImageNotExistsError\<close>) and the objects that are neither string nor array
  (with \<open>TypeError\<close>) are rejected.
\<close>

theorem open_img_array:
  "open_img imread (NdArray a) tr = (Inr a, tr)
   \<and> ((\<forall>p. src \<noteq> Str p) \<longrightarrow>
        (isl (fst (open_img imread src tr)) \<longleftrightarrow> src = PyNone \<or> src = PyOther)
        \<and> (fst (open_img imread src tr) = Inl ImageNotExistsError \<longleftrightarrow> src = PyNone)
        \<and> (fst (open_img imread src tr) = Inl TypeError \<longleftrightarrow> src = PyOther))"
  by (cases src) auto

theorem open_img_array_witness:
  "open_img (\<lambda>p. None) (NdArray ([]::nat list)) [] = (Inr [], [])
   \<and> (\<forall>p. (PyNone::nat list source) \<noteq> Str p)
   \<and> isl (fst (open_img (\<lambda>p. None) (PyNone::nat list source) []))
   \<and> fst (open_img (\<lambda>p. None) (PyNone::nat list source) []) = Inl ImageNotExistsError
   \<and> fst (open_img (\<lambda>p. None) (PyNone::nat list source) []) \<noteq> Inl TypeError"
  using open_img_array [of "\<lambda>p. None" "[]::nat list" "[]" PyNone]
  by simp

subsection \<open>Rescaling\<close>

lemma int_percent_nat:
  "0 < f \<Longrightarrow> int_percent (int n * f) = int (n * nat f div 100)"
  by (simp add: int_percent_def zdiv_int)

text \<open>
  C1, as the code has it. For every rescale factor \<open>f > 0\<close> and every source that
  opens as an image of height \<open>h\<close> and width \<open>w\<close>: when the truncated quotients
  \<open>h * f div 100\<close> and \<open>w * f div 100\<close> are both at least 1 and fit the library's
  integers, and the library can resize this array to that target (its element type, the
  memory), \<^verbatim>\<open>rescale_img\<close> returns an image of exactly that height and that width,
  every row of it of that width. For the factor 50 both dimensions are halved, rounded
  down.
\<close>

theorem rescale_img_dims:
  assumes "0 < f"
    and "open_img imread source tr = (Inr img, tr')"
    and "1 \<le> height img * nat f div 100" and "int (height img * nat f div 100) \<le> INT_MAX"
    and "1 \<le> width img * nat f div 100" and "int (width img * nat f div 100) \<le> INT_MAX"
    and "supported img (width img * nat f div 100) (height img * nat f div 100)"
  shows "\<exists>out. rescale_img supported imread interp source f tr = (Inr out, tr')
           \<and> height out = height img * nat f div 100
           \<and> width out = width img * nat f div 100
           \<and> length (pixels out) = height out
           \<and> (\<forall>r \<in> set (pixels out). length r = width out)"
proof -
  have nonempty: "height img \<noteq> 0" "width img \<noteq> 0"
    using assms(3,5) by (auto intro: ccontr)
  show ?thesis
    using assms nonempty
    by (simp add: rescale_img_def cv2_resize_def int_percent_nat Let_def del: of_nat_mult)
qed

theorem rescale_img_dims_witness:
  "(0::int) < 50
   \<and> open_img (\<lambda>p. None)
       (NdArray \<lparr>height = 4, width = 3, pixels = replicate 4 [0, 0, 0::8 word]\<rparr>) []
       = (Inr \<lparr>height = 4, width = 3, pixels = replicate 4 [0, 0, 0]\<rparr>, [])
   \<and> (\<exists>out. rescale_img (\<lambda>s w h. True) (\<lambda>p. None) (\<lambda>s w h i j. 0)
               (NdArray \<lparr>height = 4, width = 3, pixels = replicate 4 [0, 0, 0::8 word]\<rparr>) 50 []
             = (Inr out, [])
           \<and> height out = 2 \<and> width out = 1)"
  using rescale_img_dims [of 50 "\<lambda>p. None"
      "NdArray \<lparr>height = 4, width = 3, pixels = replicate 4 [0, 0, 0::8 word]\<rparr>" "[]"
      "\<lparr>height = 4, width = 3, pixels = replicate 4 [0, 0, 0::8 word]\<rparr>" "[]"
      "\<lambda>s w h. True" "\<lambda>s w h i j. 0"]
  by (auto simp add: INT_MAX_def)

text \<open>
  An 8-bit image of one pixel, rescaled by 50, with a library that can resize every
  array to every target: both target dimensions truncate to 0, the resize call refuses
  the empty target size, and no image is returned.
\<close>

theorem rescale_img_small_counterexample:
  "rescale_img (\<lambda>s w h. True) (\<lambda>p. None) (\<lambda>s w h i j. 0)
     (NdArray \<lparr>height = 1, width = 1, pixels = [[0::8 word]]\<rparr>) 50 [] = (Inl Cv2Error, [])"
  by (simp add: rescale_img_def cv2_resize_def int_percent_def)

text \<open>
  The same in general: the source has no check of the target size, and a target
  dimension that truncates to 0 ends in the library's error.
\<close>

lemma rescale_img_zero_dim:
  assumes "0 < f" and "open_img imread source tr = (Inr img, tr')"
    and "height img * nat f div 100 = 0 \<or> width img * nat f div 100 = 0"
  shows "rescale_img supported imread interp source f tr = (Inl Cv2Error, tr')"
  using assms
  by (auto simp add: rescale_img_def cv2_resize_def int_percent_nat Let_def simp del: of_nat_mult)

text \<open>An array the library cannot resize to the target: its error is the result.\<close>

lemma rescale_img_unsupported:
  assumes "0 < f" and "open_img imread source tr = (Inr img, tr')"
    and "\<not> supported img (width img * nat f div 100) (height img * nat f div 100)"
  shows "rescale_img supported imread interp source f tr = (Inl Cv2Error, tr')"
  using assms
  by (auto simp add: rescale_img_def cv2_resize_def int_percent_nat Let_def simp del: of_nat_mult)

text \<open>
  C5. For every source, valid or not, and every rescale factor that is not positive,
  \<^verbatim>\<open>rescale_img\<close> raises \<open>ValueError\<close>; the record of file accesses is as it was, so
  the source has not been opened, and the result depends neither on the source nor on
  what the files hold.
\<close>

theorem rescale_img_nonpositive:
  "rescale_factor \<le> 0 \<Longrightarrow>
     rescale_img supported imread interp source rescale_factor tr = (Inl ValueError, tr)"
  by (simp add: rescale_img_def)

theorem rescale_img_nonpositive_witness:
  "(0::int) \<le> 0
   \<and> rescale_img (\<lambda>s w h. True) (\<lambda>p. None) (\<lambda>s w h i j. 0::nat) (Str ''missing.png'') 0 []
       = (Inl ValueError, [])
   \<and> rescale_img (\<lambda>s w h. True) (\<lambda>p. None) (\<lambda>s w h i j. 0::nat) (Str ''missing.png'') 1 []
       = (Inl PathToImageIsIncorrectError, [ImRead ''missing.png''])"
  using rescale_img_nonpositive [of 0 "\<lambda>s w h. True" "\<lambda>p. None" "\<lambda>s w h i j. 0::nat"
      "Str ''missing.png''" "[]"]
  by (simp add: rescale_img_def)

subsection \<open>Mirroring\<close>

text \<open>
  C3. For every image array, \<^verbatim>\<open>img_mirror\<close> without a destination path returns an
  array, and \<^verbatim>\<open>img_mirror\<close> on that array, again without a destination path, returns
  the original image: the same shape and the same pixels.
\<close>

theorem img_mirror_twice:
  "\<exists>m tr1 tr2.
     img_mirror imwrite imread (NdArray img) None tr = (Inr m, tr1)
     \<and> img_mirror imwrite imread (NdArray m) None tr1 = (Inr img, tr2)"
  by (simp add: img_mirror_def flip_axis1_def rev_map o_def)

text \<open>
  C8, as the code has it. For every source that opens as an image and every
  destination path that is not empty, \<^verbatim>\<open>img_mirror\<close> calls \<^verbatim>\<open>cv2.imwrite\<close> with
  exactly that path and the mirrored image; when that call returns \<^verbatim>\<open>True\<close>, the one
  file written, after whatever opening the source took, is the mirrored image at
  exactly that path, and the mirrored image is returned. Without a destination path
  nothing is written and the mirrored image is returned.
\<close>

theorem img_mirror_write:
  assumes "open_img imread source tr = (Inr img, tr')" and "d \<noteq> []"
    and "cv2_imwrite imwrite d (flip_axis1 img) = ImwriteTrue"
  shows "img_mirror imwrite imread source (Some d) tr
           = (Inr (flip_axis1 img), tr' @ [ImWrite d (flip_axis1 img)])
         \<and> img_mirror imwrite imread source None tr = (Inr (flip_axis1 img), tr')"
  using assms by (simp add: img_mirror_def Let_def)

theorem img_mirror_write_witness:
  "open_img (\<lambda>p. None) (NdArray \<lparr>height = 1, width = 2, pixels = [[1, 2::8 word]]\<rparr>) []
     = (Inr \<lparr>height = 1, width = 2, pixels = [[1, 2]]\<rparr>, [])
   \<and> ''out.png'' \<noteq> []
   \<and> cv2_imwrite (\<lambda>p i. ImwriteTrue) ''out.png''
       (flip_axis1 \<lparr>height = 1, width = 2, pixels = [[1, 2::8 word]]\<rparr>) = ImwriteTrue
   \<and> img_mirror (\<lambda>p i. ImwriteTrue) (\<lambda>p. None)
        (NdArray \<lparr>height = 1, width = 2, pixels = [[1, 2::8 word]]\<rparr>) (Some ''out.png'') []
       = (Inr \<lparr>height = 1, width = 2, pixels = [[2, 1]]\<rparr>,
          [ImWrite ''out.png'' \<lparr>height = 1, width = 2, pixels = [[2, 1]]\<rparr>])
   \<and> img_mirror (\<lambda>p i. ImwriteTrue) (\<lambda>p. None)
        (NdArray \<lparr>height = 1, width = 2, pixels = [[1, 2::8 word]]\<rparr>) None []
       = (Inr \<lparr>height = 1, width = 2, pixels = [[2, 1]]\<rparr>, [])"
  using img_mirror_write [of "\<lambda>p. None"
      "NdArray \<lparr>height = 1, width = 2, pixels = [[1, 2::8 word]]\<rparr>" "[]"
      "\<lparr>height = 1, width = 2, pixels = [[1, 2::8 word]]\<rparr>" "[]" "''out.png''"
      "\<lambda>p i. ImwriteTrue"]
  by (simp add: flip_axis1_def cv2_imwrite_def)

text \<open>
  The destination path \<^verbatim>\<open>out\<close>, which is not empty, with codecs and a directory that
  accept every file: the path has no extension, the write call raises, no file is
  written and no image is returned.
\<close>

theorem img_mirror_no_extension_counterexample:
  "img_mirror (\<lambda>p i. ImwriteTrue) (\<lambda>p. None)
     (NdArray \<lparr>height = 1, width = 2, pixels = [[1, 2::8 word]]\<rparr>) (Some ''out'') []
     = (Inl Cv2Error, [])"
  by (simp add: img_mirror_def cv2_imwrite_def Let_def)

text \<open>The other two ends of the write call: an exception is the result; a refusal is not seen.\<close>

lemma img_mirror_write_raises:
  assumes "open_img imread source tr = (Inr img, tr')" and "d \<noteq> []"
    and "cv2_imwrite imwrite d (flip_axis1 img) = ImwriteRaises"
  shows "img_mirror imwrite imread source (Some d) tr = (Inl Cv2Error, tr')"
  using assms by (simp add: img_mirror_def Let_def)

lemma img_mirror_write_false:
  assumes "open_img imread source tr = (Inr img, tr')" and "d \<noteq> []"
    and "cv2_imwrite imwrite d (flip_axis1 img) = ImwriteFalse"
  shows "img_mirror imwrite imread source (Some d) tr = (Inr (flip_axis1 img), tr')"
  using assms by (simp add: img_mirror_def Let_def)

text \<open>An empty string as destination path fails the test of the source: no write.\<close>

lemma img_mirror_empty_destination:
  assumes "open_img imread source tr = (Inr img, tr')"
  shows "img_mirror imwrite imread source (Some []) tr = (Inr (flip_axis1 img), tr')"
  using assms by (simp add: img_mirror_def Let_def)

text \<open>A source that does not open: its error is the result, and nothing is written.\<close>

lemma img_mirror_open_error:
  assumes "open_img imread source tr = (Inl e, tr')"
  shows "img_mirror imwrite imread source destination_path tr = (Inl e, tr')"
  using assms by (simp add: img_mirror_def)

subsection \<open>Landmarks on one frame\<close>

text \<open>
  The three drawing calls stand under the one test for pose landmarks: without pose
  landmarks the frame is returned as it came, whatever the detector says of the hands.
\<close>

lemma detect_and_draw_landmarks_no_pose:
  assumes "pose_landmarks
             (process (min_detection_confidence args) (min_tracking_confidence args) img) = None"
  shows "detect_and_draw_landmarks process render img args = img"
  using assms by (simp add: detect_and_draw_landmarks_def Let_def)

text \<open>
  C4. The detector of the library finds the hands from the pose: it reports hand
  landmarks only together with pose landmarks. For every input frame whose detection
  result is of that kind, \<^verbatim>\<open>detect_and_draw_landmarks\<close> draws an overlay for each of
  the results that is present (pose, left hand, right hand, in this order, with the
  point and connection styles of its arguments) and for no other; when no result is
  present it returns the frame without drawn landmarks.
\<close>

theorem detect_and_draw_landmarks_overlays:
  assumes "process (min_detection_confidence args) (min_tracking_confidence args) img = r"
    and "pose_landmarks r = None \<longrightarrow>
           left_hand_landmarks r = None \<and> right_hand_landmarks r = None"
  shows "detect_and_draw_landmarks process render img args =
           foldl (\<lambda>f (l, c). render l c
                    \<lparr>color = points_color args, thickness = points_thickness args,
                     circle_radius = points_radius args\<rparr>
                    \<lparr>color = connect_color args, thickness = connect_thickness args,
                     circle_radius = connect_radius args\<rparr> f)
                 img (present_results r)
         \<and> (present_results r = [] \<longrightarrow>
              detect_and_draw_landmarks process render img args = img)"
  using assms
  by (auto simp add: detect_and_draw_landmarks_def draw_landmarks_def DrawingSpec_def Let_def
        present_results_def split: option.splits)

theorem detect_and_draw_landmarks_overlays_witness:
  "(pose_landmarks \<lparr>pose_landmarks = Some ''pose'', left_hand_landmarks = None,
                     right_hand_landmarks = Some ''right''\<rparr> \<noteq> None)
   \<and> detect_and_draw_landmarks
       (\<lambda>d t f. \<lparr>pose_landmarks = Some ''pose'', left_hand_landmarks = None,
                  right_hand_landmarks = Some ''right''\<rparr>)
       (\<lambda>l c ps cs f. f @ [(c, l)]) [] default_args
     = [(POSE_CONNECTIONS, ''pose''), (HAND_CONNECTIONS, ''right'')]
   \<and> present_results \<lparr>pose_landmarks = None :: string option, left_hand_landmarks = None,
                      right_hand_landmarks = None\<rparr> = []
   \<and> detect_and_draw_landmarks
       (\<lambda>d t f. \<lparr>pose_landmarks = None, left_hand_landmarks = None,
                  right_hand_landmarks = None\<rparr>)
       (\<lambda>l c ps cs f. f @ [(c, l :: string)]) [(HAND_CONNECTIONS, ''before'')] default_args
     = [(HAND_CONNECTIONS, ''before'')]"
  using detect_and_draw_landmarks_overlays
      [of "\<lambda>d t f. \<lparr>pose_landmarks = Some ''pose'', left_hand_landmarks = None,
                      right_hand_landmarks = Some ''right''\<rparr>"
          default_args "[]"
          "\<lparr>pose_landmarks = Some ''pose'', left_hand_landmarks = None,
            right_hand_landmarks = Some ''right''\<rparr>"
          "\<lambda>l c ps cs f. f @ [(c, l)]"]
    detect_and_draw_landmarks_overlays
      [of "\<lambda>d t f. \<lparr>pose_landmarks = None :: string option, left_hand_landmarks = None,
                      right_hand_landmarks = None\<rparr>"
          default_args "[(HAND_CONNECTIONS, ''before'')]"
          "\<lparr>pose_landmarks = None, left_hand_landmarks = None,
            right_hand_landmarks = None\<rparr>"
          "\<lambda>l c ps cs f. f @ [(c, l)]"]
  by (simp add: present_results_def)

subsection \<open>Frames of a video\<close>

text \<open>
  The loop on an open capture whose read number \<open>k\<close> (counted from the current
  position) is the first to fail: it ends, having served \<open>k + 1\<close> reads, and has added
  the step's value on each of the \<open>k\<close> frames read, in order.
\<close>

lemma frame_loop_first_failure:
  assumes "is_opened cap"
    and "frames cap (position cap + k) = None"
    and "\<forall>i<k. frames cap (position cap + i) \<noteq> None"
  shows "frame_loop step cap outs =
           Some (cap\<lparr>position := position cap + Suc k\<rparr>,
                 outs @ map (\<lambda>i. step (the (frames cap (position cap + i)))) [0..<k])"
  using assms
proof (induction k arbitrary: cap outs)
  case 0
  then show ?case
    by (subst frame_loop.simps) (simp add: cap_read_def)
next
  case (Suc k)
  from Suc.prems(3) obtain img where img: "frames cap (position cap) = Some img"
    by (metis add.right_neutral not_None_eq zero_less_Suc)
  let ?cap = "cap\<lparr>position := Suc (position cap)\<rparr>"
  have ih: "frame_loop step ?cap (outs @ [step img]) =
          Some (?cap\<lparr>position := position ?cap + Suc k\<rparr>,
                (outs @ [step img]) @ map (\<lambda>i. step (the (frames ?cap (position ?cap + i)))) [0..<k])"
  proof (rule Suc.IH)
    show "is_opened ?cap" using Suc.prems(1) by simp
    show "frames ?cap (position ?cap + k) = None" using Suc.prems(2) by simp
    show "\<forall>i<k. frames ?cap (position ?cap + i) \<noteq> None"
      using Suc.prems(3) by (auto simp: less_Suc_eq_0_disj)
  qed
  have shift: "map (\<lambda>i. step (the (frames cap (position cap + i)))) [0..<Suc k]
      = step img # map (\<lambda>i. step (the (frames cap (Suc (position cap + i))))) [0..<k]"
    using img by (simp add: upt_conv_Cons map_Suc_upt [symmetric] del: upt_Suc)
  have "frame_loop step cap outs = frame_loop step ?cap (outs @ [step img])"
    using Suc.prems(1) img by (subst frame_loop.simps) (simp add: cap_read_def)
  also note ih
  finally show ?case
    by (simp add: shift del: upt_Suc)
qed

text \<open>
  C7. When the capture cannot be opened, \<^verbatim>\<open>drawing_points_video\<close> raises
  \<open>PathToVideoIsIncorrectError\<close> for a string source (a video path) and
  \<open>CameraIndexIsIncorrect\<close> for a source that is not a string (a camera index). When
  the capture opens, neither of the two is raised (nor any other error of the module).
\<close>

theorem drawing_points_video_errors:
  "(\<not> is_opened (VideoCapture (VideoPath p)) \<longrightarrow>
      drawing_points_video VideoCapture cvtColor process render (VideoPath p) args
        = Some (Inl PathToVideoIsIncorrectError))
   \<and> (\<not> is_opened (VideoCapture (CameraIndex i)) \<longrightarrow>
      drawing_points_video VideoCapture cvtColor process render (CameraIndex i) args
        = Some (Inl CameraIndexIsIncorrect))
   \<and> (is_opened (VideoCapture source) \<longrightarrow>
      (\<forall>e. drawing_points_video VideoCapture cvtColor process render source args
             \<noteq> Some (Inl e)))"
  by (auto simp add: drawing_points_video_def)

theorem drawing_points_video_errors_witness:
  "\<not> is_opened ((\<lambda>s. \<lparr>is_opened = (s = CameraIndex 0), position = 0, frames = (\<lambda>n. None)\<rparr>)
         (VideoPath ''missing.mp4''))
   \<and> drawing_points_video
        (\<lambda>s. \<lparr>is_opened = (s = CameraIndex 0), position = 0, frames = (\<lambda>n. None)\<rparr>)
        rev (\<lambda>d t f. \<lparr>pose_landmarks = None, left_hand_landmarks = None,
                       right_hand_landmarks = None\<rparr>)
        (\<lambda>l c ps cs f. f @ [l::nat]) (VideoPath ''missing.mp4'') default_args
       = Some (Inl PathToVideoIsIncorrectError)
   \<and> \<not> is_opened ((\<lambda>s. \<lparr>is_opened = (s = CameraIndex 0), position = 0, frames = (\<lambda>n. None)\<rparr>)
         (CameraIndex 7))
   \<and> drawing_points_video
        (\<lambda>s. \<lparr>is_opened = (s = CameraIndex 0), position = 0, frames = (\<lambda>n. None)\<rparr>)
        rev (\<lambda>d t f. \<lparr>pose_landmarks = None, left_hand_landmarks = None,
                       right_hand_landmarks = None\<rparr>)
        (\<lambda>l c ps cs f. f @ [l::nat]) (CameraIndex 7) default_args
       = Some (Inl CameraIndexIsIncorrect)
   \<and> is_opened ((\<lambda>s. \<lparr>is_opened = (s = CameraIndex 0), position = 0, frames = (\<lambda>n. None)\<rparr>)
         (CameraIndex 0))
   \<and> drawing_points_video
        (\<lambda>s. \<lparr>is_opened = (s = CameraIndex 0), position = 0, frames = (\<lambda>n. None)\<rparr>)
        rev (\<lambda>d t f. \<lparr>pose_landmarks = None, left_hand_landmarks = None,
                       right_hand_landmarks = None\<rparr>)
        (\<lambda>l c ps cs f. f @ [l::nat]) (CameraIndex 0) default_args
       \<noteq> Some (Inl PathToVideoIsIncorrectError)
   \<and> drawing_points_video
        (\<lambda>s. \<lparr>is_opened = (s = CameraIndex 0), position = 0, frames = (\<lambda>n. None)\<rparr>)
        rev (\<lambda>d t f. \<lparr>pose_landmarks = None, left_hand_landmarks = None,
                       right_hand_landmarks = None\<rparr>)
        (\<lambda>l c ps cs f. f @ [l::nat]) (CameraIndex 0) default_args
       \<noteq> Some (Inl CameraIndexIsIncorrect)"
  using drawing_points_video_errors
      [of "\<lambda>s. \<lparr>is_opened = (s = CameraIndex 0), position = 0, frames = (\<lambda>n. None)\<rparr>"
          "''missing.mp4''" rev
          "\<lambda>d t f. \<lparr>pose_landmarks = None, left_hand_landmarks = None,
                       right_hand_landmarks = None\<rparr>"
          "\<lambda>l c ps cs f. f @ [l::nat]" default_args 7 "CameraIndex 0"]
  by simp

text \<open>
  C9. Once the capture is open, and read number \<open>k\<close> is the first that fails:
  \<^verbatim>\<open>drawing_points_video\<close> returns; it has served exactly \<open>k + 1\<close> reads, so the loop
  ended with the first failed read; the value computed for each frame is the one
  detection-and-draw step (colour conversion, then \<^verbatim>\<open>detect_and_draw_landmarks\<close> with
  the call's arguments) applied to that frame alone, with nothing carried over from
  the frames before; and the capture is still open at the end, as the function never
  releases it.
\<close>

theorem drawing_points_video_frames:
  assumes "VideoCapture source = cap" and "is_opened cap"
    and "frames cap (position cap + k) = None"
    and "\<forall>i<k. frames cap (position cap + i) \<noteq> None"
  shows "\<exists>cap' outs.
           drawing_points_video VideoCapture cvtColor process render source args
             = Some (Inr (cap', outs))
           \<and> is_opened cap'
           \<and> position cap' = position cap + k + 1
           \<and> frames cap' = frames cap
           \<and> outs = map (\<lambda>i. detect_and_draw_landmarks process render
                                 (cvtColor (the (frames cap (position cap + i)))) args)
                       [0..<k]"
  using assms
  by (simp add: drawing_points_video_def frame_loop_first_failure del: upt_Suc)

theorem drawing_points_video_frames_witness:
  "is_opened \<lparr>is_opened = True, position = 0,
               frames = (\<lambda>n. if n < 2 then Some [n] else None)\<rparr>
   \<and> (\<exists>cap'.
        drawing_points_video
          (\<lambda>s. \<lparr>is_opened = True, position = 0,
                 frames = (\<lambda>n. if n < 2 then Some [n] else None)\<rparr>)
          rev
          (\<lambda>d t f. \<lparr>pose_landmarks = Some 7, left_hand_landmarks = None,
                     right_hand_landmarks = Some 9\<rparr>)
          (\<lambda>l c ps cs f. f @ [l::nat]) (CameraIndex 0) default_args
          = Some (Inr (cap', [[0, 7, 9], [1, 7, 9]]))
        \<and> is_opened cap' \<and> position cap' = 3)"
  using drawing_points_video_frames
      [of "\<lambda>s. \<lparr>is_opened = True, position = 0,
                 frames = (\<lambda>n. if n < 2 then Some [n] else None)\<rparr>"
          "CameraIndex 0"
          "\<lparr>is_opened = True, position = 0,
            frames = (\<lambda>n. if n < 2 then Some [n] else None)\<rparr>"
          2 rev
          "\<lambda>d t f. \<lparr>pose_landmarks = Some 7, left_hand_landmarks = None,
                     right_hand_landmarks = Some 9\<rparr>"
          "\<lambda>l c ps cs f. f @ [l::nat]" default_args]
  by (auto simp add: detect_and_draw_landmarks_def draw_landmarks_def Let_def
        upt_conv_Cons simp del: upt_Suc)

end
